theory Spec2Isabelle
  imports Complex_Main "HOL-Library.Sublist" "HOL-Library.Multiset" "HOL-Library.AList"
begin

section \<open>Python values shared by the models\<close>

text \<open>
  \<open>str\<close> values are byte strings and \<open>str.lower\<close> acts on the ASCII letters. \<open>a in b\<close> on
  two strings is the contiguous substring test \<^const>\<open>sublist\<close>.
\<close>

definition lower_char :: "char \<Rightarrow> char" where
  "lower_char c =
     (case map_of (zip ''ABCDEFGHIJKLMNOPQRSTUVWXYZ'' ''abcdefghijklmnopqrstuvwxyz'') c of
        Some d \<Rightarrow> d
      | None \<Rightarrow> c)"

definition lower :: "string \<Rightarrow> string" where
  "lower s = map lower_char s"

text \<open>
  A Python float is an IEEE 754 binary64 number; a finite one is modelled by the real number
  it denotes. The place scorer computes in this arithmetic: a decimal literal \<open>c\<close> is the
  double \<open>binary64 c\<close> nearest to it, and \<open>+\<close>, \<open>-\<close>, \<open>*\<close> and \<open>/\<close> give the double nearest to
  the exact result, a tie going to the even neighbour. The literals \<open>0.5\<close> and \<open>1.0\<close> are
  doubles themselves. Overflow is beyond the magnitudes of the scorer and is not modelled.
  The feature engineer and the two models further down idealise floats as exact reals.
\<close>

definition round_half_even :: "real \<Rightarrow> int" where
  "round_half_even x =
     (let f = \<lfloor>x\<rfloor>; d = x - of_int f
      in if d < 1 / 2 then f
         else if 1 / 2 < d then f + 1
         else if even f then f else f + 1)"

text \<open>
  The binary exponent of a positive \<open>x\<close> (the integer \<open>e\<close> with \<open>2 ^ e \<le> x < 2 ^ (e + 1)\<close>),
  found by halving or doubling (the first argument bounds the steps), and the rounding to
  53 significant bits; below the exponent -1022 the spacing stays that of the subnormal
  numbers.
\<close>

fun float_exponent :: "nat \<Rightarrow> real \<Rightarrow> int" where
  "float_exponent 0 x = 0"
| "float_exponent (Suc n) x =
     (if 2 \<le> x then float_exponent n (x / 2) + 1
      else if x < 1 then float_exponent n (x * 2) - 1
      else 0)"

definition binary64 :: "real \<Rightarrow> real" where
  "binary64 x =
     (if x = 0 then 0
      else
        (let e = max (float_exponent 1100 \<bar>x\<bar>) (- 1022) - 52;
             ulp = (if 0 \<le> e then 2 ^ nat e else 1 / 2 ^ nat (- e))
         in of_int (round_half_even (x / ulp)) * ulp))"

text \<open>
  The four operations on floats. No division of the scorer has a zero divisor (an interest
  list that is divided by is not empty, and a diversity denominator is at least 1).
\<close>

definition fadd :: "real \<Rightarrow> real \<Rightarrow> real" where
  "fadd x y = binary64 (x + y)"

definition fsub :: "real \<Rightarrow> real \<Rightarrow> real" where
  "fsub x y = binary64 (x - y)"

definition fmul :: "real \<Rightarrow> real \<Rightarrow> real" where
  "fmul x y = binary64 (x * y)"

definition fdiv :: "real \<Rightarrow> real \<Rightarrow> real" where
  "fdiv x y = binary64 (x / y)"

text \<open>
  \<open>round(x, n)\<close> of a float: the exact value of \<open>x\<close> is rounded to \<open>n\<close> decimals, a tie going
  to the even neighbour, and the result is the double nearest to that decimal.
\<close>

definition py_round :: "real \<Rightarrow> nat \<Rightarrow> real" where
  "py_round x n = binary64 (of_int (round_half_even (x * 10 ^ n)) / 10 ^ n)"

text \<open>
  \<open>sorted(xs, key=k, reverse=True)\<close>: the sort is stable and \<open>reverse=True\<close> keeps it so;
  the list is reversed, sorted stably in ascending order, and reversed again.
\<close>

definition py_sorted_reverse :: "('a \<Rightarrow> real) \<Rightarrow> 'a list \<Rightarrow> 'a list" where
  "py_sorted_reverse k xs = rev (sort_key k (rev xs))"


section \<open>The place scorer: \<open>models/recommender/osm_recommender.py\<close>\<close>

text \<open>
  A candidate place is a dict with the keys \<open>name\<close>, \<open>category\<close>, \<open>lat\<close>, \<open>lon\<close> and an
  optional \<open>tags\<close> dict (\<open>place.get('tags', {})\<close>: a missing one reads as the empty map).
\<close>

record place =
  name :: string
  category :: string
  lat :: real
  lon :: real
  tags :: "string \<rightharpoonup> string"

record breakdown =
  popularity :: real
  interest_match :: real
  season_fit :: real
  distance :: real
  diversity :: real

text \<open>The dict after the scoring loop, and after the rank numbers are added.\<close>

record scored_place =
  base :: place
  rank_score :: real
  score_breakdown :: breakdown

record ranked_place = scored_place +
  rank :: nat

definition CATEGORY_KEYWORDS :: "string \<rightharpoonup> string list" where
  "CATEGORY_KEYWORDS = map_of
     [(''nature'', [''beach'', ''mountain'', ''park'', ''waterfall'', ''viewpoint'']),
      (''religious'', [''temple'', ''monument'']),
      (''culture'', [''museum'', ''monument'', ''tourist_attraction'']),
      (''adventure'', [''mountain'', ''viewpoint'', ''beach'']),
      (''history'', [''monument'', ''museum'', ''tourist_attraction'']),
      (''relaxation'', [''beach'', ''park'']),
      (''heritage'', [''monument'', ''tourist_attraction''])]"

text \<open>Truth value of \<open>tags.get(key)\<close>: a missing key and the empty string are false.\<close>

definition truthy :: "string option \<Rightarrow> bool" where
  "truthy v = (case v of None \<Rightarrow> False | Some s \<Rightarrow> s \<noteq> [])"

definition calculate_popularity :: "place \<Rightarrow> real" where
  "calculate_popularity p =
     (let t = tags p;
          score = 0.5;
          score = (if truthy (t ''wikipedia'') then fadd score (binary64 0.2) else score);
          score = (if truthy (t ''website'') then fadd score (binary64 0.1) else score);
          score = (if truthy (t ''description'') then fadd score (binary64 0.1) else score);
          score = (if t ''tourism'' = Some ''attraction'' then fadd score (binary64 0.1)
                   else score)
      in min score 1)"

text \<open>
  The loop over the interests of \<open>_calculate_interest_match\<close>: \<open>n\<close> is \<open>len(interests)\<close>
  (an int, converted to a float by the division), \<open>score\<close> the running sum.
\<close>

fun interest_loop :: "string \<Rightarrow> nat \<Rightarrow> real \<Rightarrow> string list \<Rightarrow> real" where
  "interest_loop place_category n score [] = score"
| "interest_loop place_category n score (i # rest) =
     (let interest = lower i;
          score = (case CATEGORY_KEYWORDS interest of
                     Some relevant_categories \<Rightarrow>
                       if \<exists>cat \<in> set relevant_categories. sublist cat place_category
                       then fadd score (fdiv 1 (binary64 (real n))) else score
                   | None \<Rightarrow> score);
          score = (if sublist interest place_category \<or> sublist place_category interest
                   then fadd score (fdiv 0.5 (binary64 (real n))) else score)
      in interest_loop place_category n score rest)"

definition calculate_interest_match :: "place \<Rightarrow> string list option \<Rightarrow> real" where
  "calculate_interest_match p interests =
     (case interests of
        None \<Rightarrow> 0.5
      | Some is \<Rightarrow>
          if is = [] then 0.5
          else min (interest_loop (lower (category p)) (length is) 0 is) 1)"

text \<open>The current month, \<open>datetime.datetime.now().month\<close>, is the argument \<open>month\<close>.\<close>

definition calculate_season_fit :: "nat \<Rightarrow> place \<Rightarrow> real" where
  "calculate_season_fit month p =
     (let c = lower (category p)
      in if sublist ''beach'' c then
           (if 6 \<le> month \<and> month \<le> 8 then 1
            else if (3 \<le> month \<and> month \<le> 5) \<or> (9 \<le> month \<and> month \<le> 11)
            then binary64 0.7
            else binary64 0.4)
         else if sublist ''mountain'' c \<or> sublist ''hill'' c then
           (if (3 \<le> month \<and> month \<le> 5) \<or> (9 \<le> month \<and> month \<le> 11) then 1
            else binary64 0.7)
         else binary64 0.8)"

text \<open>
  \<open>x ** y\<close> on floats calls the \<open>pow\<close> of the C library, whose last bit is the library's
  own: it is the argument \<open>libm_pow\<close>.
\<close>

definition calculate_distance_score ::
  "(real \<Rightarrow> real \<Rightarrow> real) \<Rightarrow> real \<Rightarrow> real \<Rightarrow> real \<Rightarrow> real \<Rightarrow> real"
where
  "calculate_distance_score libm_pow place_lat place_lon center_lat center_lon =
     (let lat_diff = \<bar>fsub place_lat center_lat\<bar>;
          lon_diff = \<bar>fsub place_lon center_lon\<bar>;
          d = libm_pow (fadd (libm_pow lat_diff 2) (libm_pow lon_diff 2)) 0.5
      in if d < binary64 0.1 then 1
         else if d < binary64 0.3 then binary64 0.8
         else if d < 0.5 then binary64 0.6
         else binary64 0.4)"

text \<open>
  The body of the scoring loop from the combined score on, given the five sub-scores the
  loop has computed for the place.
\<close>

definition score_place :: "place \<Rightarrow> real \<Rightarrow> real \<Rightarrow> real \<Rightarrow> real \<Rightarrow> real \<Rightarrow> scored_place" where
  "score_place p popularity_score interest_score season_score distance_score diversity_score =
     (let final_score =
            fadd (fadd (fadd (fadd (fmul (binary64 0.35) popularity_score)
                                   (fmul (binary64 0.25) interest_score))
                             (fmul (binary64 0.20) season_score))
                       (fmul (binary64 0.10) distance_score))
                 (fmul (binary64 0.10) diversity_score)
      in \<lparr>base = p,
          rank_score = py_round final_score 4,
          score_breakdown =
            \<lparr>popularity = py_round popularity_score 2,
             interest_match = py_round interest_score 2,
             season_fit = py_round season_score 2,
             distance = py_round distance_score 2,
             diversity = py_round diversity_score 2\<rparr>\<rparr>)"

text \<open>
  The scoring loop, with the \<open>defaultdict(int)\<close> of per-category counts as its state (a
  count is an int, converted to a float by the multiplication).
\<close>

fun score_loop ::
  "(real \<Rightarrow> real \<Rightarrow> real) \<Rightarrow> string list option \<Rightarrow> real \<Rightarrow> real \<Rightarrow> nat \<Rightarrow> (string \<Rightarrow> nat)
     \<Rightarrow> place list \<Rightarrow> scored_place list"
where
  "score_loop libm_pow interests center_lat center_lon month category_counts [] = []"
| "score_loop libm_pow interests center_lat center_lon month category_counts (p # ps) =
     (let popularity_score = calculate_popularity p;
          interest_score = calculate_interest_match p interests;
          season_score = calculate_season_fit month p;
          distance_score =
            calculate_distance_score libm_pow (lat p) (lon p) center_lat center_lon;
          c = category p;
          diversity_score =
            fdiv 1 (fadd 1 (fmul (binary64 (real (category_counts c))) (binary64 0.1)));
          category_counts = category_counts(c := category_counts c + 1)
      in score_place p popularity_score interest_score season_score distance_score diversity_score
         # score_loop libm_pow interests center_lat center_lon month category_counts ps)"

text \<open>\<open>for i, place in enumerate(ranked, 1): place['rank'] = i\<close>\<close>

fun assign_ranks :: "nat \<Rightarrow> scored_place list \<Rightarrow> ranked_place list" where
  "assign_ranks i [] = []"
| "assign_ranks i (s # ss) =
     \<lparr>base = base s, rank_score = rank_score s, score_breakdown = score_breakdown s, rank = i\<rparr>
     # assign_ranks (Suc i) ss"

definition OSMRecommender_rank_places ::
  "(real \<Rightarrow> real \<Rightarrow> real) \<Rightarrow> place list \<Rightarrow> string list option \<Rightarrow> real \<Rightarrow> real \<Rightarrow> nat
     \<Rightarrow> ranked_place list"
where
  "OSMRecommender_rank_places libm_pow places interests center_lat center_lon month =
     (let scored_places =
            score_loop libm_pow interests center_lat center_lon month (\<lambda>_. 0) places;
          ranked = py_sorted_reverse rank_score scored_places
      in assign_ranks 1 ranked)"

text \<open>A ranked place without its rank number.\<close>

definition unranked :: "ranked_place \<Rightarrow> scored_place" where
  "unranked r = \<lparr>base = base r, rank_score = rank_score r, score_breakdown = score_breakdown r\<rparr>"

text \<open>Places used to evaluate the scorer, and a \<open>pow\<close> that rounds correctly.\<close>

definition rounded_pow :: "real \<Rightarrow> real \<Rightarrow> real" where
  "rounded_pow x y = binary64 (x powr y)"

definition example_beach :: place where
  "example_beach = \<lparr>name = ''Marina'', category = ''beach'', lat = 0, lon = 0, tags = Map.empty\<rparr>"

definition example_museum :: place where
  "example_museum =
     \<lparr>name = ''Fort Museum'', category = ''museum'', lat = 0, lon = 0,
      tags = [''wikipedia'' \<mapsto> ''en:Fort Museum'']\<rparr>"

definition example_attraction :: place where
  "example_attraction =
     \<lparr>name = ''Clock Tower'', category = ''attraction'', lat = 0, lon = 0, tags = Map.empty\<rparr>"

definition example_tourism :: place where
  "example_tourism =
     \<lparr>name = ''Clock Tower'', category = ''monument'', lat = 0, lon = 0,
      tags = [''tourism'' \<mapsto> ''attraction'']\<rparr>"


section \<open>The feature engineer: \<open>data/feature_engineering.py\<close>\<close>

text \<open>Exceptions the modelled code can raise.\<close>

datatype py_error =
  KeyError | ValueError | TypeError | AttributeError | IndexError | NotFittedError

text \<open>
  A float64 cell that may be non-finite: numpy division by zero does not raise, it yields
  \<open>nan\<close> for \<open>0/0\<close> and an infinity otherwise.
\<close>

datatype npfloat = Finite real | PosInf | NegInf | NaN

definition np_div :: "real \<Rightarrow> real \<Rightarrow> npfloat" where
  "np_div x y =
     (if y \<noteq> 0 then Finite (x / y)
      else if x = 0 then NaN
      else if 0 < x then PosInf else NegInf)"

definition np_scale :: "npfloat \<Rightarrow> real \<Rightarrow> npfloat" where
  "np_scale v c =
     (case v of
        Finite x \<Rightarrow> Finite (x * c)
      | NaN \<Rightarrow> NaN
      | PosInf \<Rightarrow> (if 0 < c then PosInf else if c < 0 then NegInf else NaN)
      | NegInf \<Rightarrow> (if 0 < c then NegInf else if c < 0 then PosInf else NaN))"

fun np_add :: "npfloat \<Rightarrow> npfloat \<Rightarrow> npfloat" where
  "np_add (Finite x) (Finite y) = Finite (x + y)"
| "np_add NaN _ = NaN"
| "np_add _ NaN = NaN"
| "np_add PosInf NegInf = NaN"
| "np_add NegInf PosInf = NaN"
| "np_add PosInf _ = PosInf"
| "np_add _ PosInf = PosInf"
| "np_add NegInf _ = NegInf"
| "np_add _ NegInf = NegInf"

text \<open>
  A row of the places frame, with the columns \<open>create_place_features\<close> reads. The \<open>rating\<close>
  column may be missing from the frame as a whole (\<open>'rating' not in df.columns\<close>): the flag
  \<open>has_rating_column\<close> of the model says whether it is there, and the \<open>rating\<close> cells are
  read only when it is. Review counts are non-negative integers, ratings and price levels
  finite numbers.
\<close>

record place_row =
  rating :: real
  reviews_count :: nat
  price_level :: real
  row_category :: string
  latitude :: real
  longitude :: real

text \<open>The columns the function adds (and the \<open>rating\<close> column after the default).\<close>

record place_features =
  pf_rating :: real
  rating_normalized :: real
  has_rating :: nat
  rating_quality :: nat
  log_reviews :: real
  popularity_score :: real
  is_popular :: nat
  price_level_normalized :: real
  is_budget_friendly :: nat
  is_luxury :: nat
  category_dummies :: "string \<rightharpoonup> bool"
  lat_rounded :: real
  lon_rounded :: real
  quality_score :: npfloat

text \<open>
  \<open>pd.cut(rating, bins=[0, 3, 4, 5], labels=[0, 1, 2])\<close>: the bins are closed on the
  right and open on the left, the lowest edge included in none (\<open>include_lowest\<close> is not
  set); a value in no bin is \<open>NaN\<close>, here \<open>None\<close>.
\<close>

definition cut_rating :: "real \<Rightarrow> nat option" where
  "cut_rating r =
     (if 0 < r \<and> r \<le> 3 then Some 0
      else if 3 < r \<and> r \<le> 4 then Some 1
      else if 4 < r \<and> r \<le> 5 then Some 2
      else None)"

text \<open>
  \<open>.astype(int)\<close> on the categorical column: a \<open>NaN\<close> among the cells raises
  \<open>ValueError\<close> (cannot convert float NaN to integer).
\<close>

fun astype_int :: "nat option list \<Rightarrow> py_error + nat list" where
  "astype_int [] = Inr []"
| "astype_int (None # cs) = Inl ValueError"
| "astype_int (Some c # cs) =
     (case astype_int cs of Inl e \<Rightarrow> Inl e | Inr ns \<Rightarrow> Inr (c # ns))"

text \<open>\<open>Series.median()\<close> and \<open>Series.max()\<close> of a column with at least one row.\<close>

definition median :: "real list \<Rightarrow> real" where
  "median xs =
     (let s = sort xs; n = length s
      in if odd n then s ! (n div 2) else (s ! (n div 2 - 1) + s ! (n div 2)) / 2)"

definition column_max :: "real list \<Rightarrow> real" where
  "column_max xs = fold max (tl xs) (hd xs)"

text \<open>
  The columns of one row, given the statistics of the batch: the rating after the default,
  its bucket, the median review count, the largest \<open>log_reviews\<close> and the categories seen.
\<close>

definition place_feature_row ::
  "real \<Rightarrow> nat \<Rightarrow> real \<Rightarrow> real \<Rightarrow> string list \<Rightarrow> place_row \<Rightarrow> place_features"
where
  "place_feature_row r q med mx cats row =
     (let rn = r / 5;
          lr = ln (1 + real (reviews_count row))
      in \<lparr>pf_rating = r,
          rating_normalized = rn,
          has_rating = of_bool (0 < r),
          rating_quality = q,
          log_reviews = lr,
          popularity_score = r * ln (1 + real (reviews_count row)),
          is_popular = of_bool (med < real (reviews_count row)),
          price_level_normalized = price_level row / 4,
          is_budget_friendly = of_bool (price_level row \<le> 2),
          is_luxury = of_bool (3 \<le> price_level row),
          category_dummies =
            (\<lambda>c. if c \<in> set cats then Some (row_category row = c) else None),
          lat_rounded = py_round (latitude row) 2,
          lon_rounded = py_round (longitude row) 2,
          quality_score =
            np_add (np_add (Finite (rn * 0.4)) (np_scale (np_div lr mx) 0.3))
                   (Finite ((5 - price_level row) / 4 * 0.3))\<rparr>)"

definition create_place_features :: "bool \<Rightarrow> place_row list \<Rightarrow> py_error + place_features list" where
  "create_place_features has_rating_column rows =
     (let ratings = (if has_rating_column then map rating rows else map (\<lambda>_. 4) rows)
      in case astype_int (map cut_rating ratings) of
           Inl e \<Rightarrow> Inl e
         | Inr quality \<Rightarrow>
             (let med = median (map (\<lambda>row. real (reviews_count row)) rows);
                  mx = column_max (map (\<lambda>row. ln (1 + real (reviews_count row))) rows);
                  cats = map row_category rows
              in Inr (map (\<lambda>(r, q, row). place_feature_row r q med mx cats row)
                        (zip ratings (zip quality rows)))))"

text \<open>Batches used to evaluate the feature engineer.\<close>

definition unrated_place :: place_row where
  "unrated_place =
     \<lparr>rating = 0, reviews_count = 12, price_level = 2, row_category = ''museum'',
      latitude = 13.08, longitude = 80.27\<rparr>"

definition unreviewed_place :: place_row where
  "unreviewed_place =
     \<lparr>rating = 4.5, reviews_count = 0, price_level = 1, row_category = ''park'',
      latitude = 13.08, longitude = 80.27\<rparr>"


section \<open>Frames, scalers and regressors\<close>

text \<open>
  A pandas frame: the row labels and the columns in order, each column numeric or text, the
  column names distinct.
\<close>

datatype column = NumCol "real list" | StrCol "string list"

record dataframe =
  index :: "nat list"
  columns :: "(string \<times> column) list"

text \<open>\<open>df[key] = column\<close>: an existing column is replaced in place, a new one appended.\<close>

definition set_column :: "dataframe \<Rightarrow> string \<Rightarrow> column \<Rightarrow> dataframe" where
  "set_column df key c = df\<lparr>columns := AList.update key c (columns df)\<rparr>"

text \<open>\<open>df[names]\<close>: the named columns in the order asked for; a missing name raises.\<close>

fun select_columns :: "(string \<times> column) list \<Rightarrow> string list \<Rightarrow> py_error + (string \<times> column) list" where
  "select_columns cols [] = Inr []"
| "select_columns cols (f # fs) =
     (case map_of cols f of
        None \<Rightarrow> Inl KeyError
      | Some c \<Rightarrow>
          (case select_columns cols fs of Inl e \<Rightarrow> Inl e | Inr cs \<Rightarrow> Inr ((f, c) # cs)))"

text \<open>
  The conversion of the selected frame to a float matrix by scikit-learn's input check:
  a text column does not convert.
\<close>

fun numeric_columns :: "(string \<times> column) list \<Rightarrow> py_error + real list list" where
  "numeric_columns [] = Inr []"
| "numeric_columns ((f, StrCol xs) # cs) = Inl ValueError"
| "numeric_columns ((f, NumCol xs) # cs) =
     (case numeric_columns cs of Inl e \<Rightarrow> Inl e | Inr ns \<Rightarrow> Inr (xs # ns))"

definition rows_of :: "nat \<Rightarrow> real list list \<Rightarrow> real list list" where
  "rows_of n cols = map (\<lambda>i. map (\<lambda>c. c ! i) cols) [0 ..< n]"

text \<open>
  A fitted \<open>StandardScaler\<close> (means and scales per feature; a scale is never 0, scikit-learn
  stores 1 for a constant feature) and a fitted regressor, which maps a scaled row to its
  prediction. A random forest fitted with \<open>n_jobs=-1\<close> (the default of \<open>train\<close>) adds up
  the predictions of its trees in the order in which the worker threads of the call reach
  the sum, and the float sum depends on that order: the prediction is a function of the
  order of the call (the list \<open>thread_order\<close>, one per call of \<open>predict\<close>) and of the row;
  ridge and gradient boosting do not look at it. \<open>None\<close> stands for the unfitted scaler
  and for \<open>self.model = None\<close>. \<open>transform\<close> and \<open>predict\<close> reject a matrix with no row,
  with no column, or of another width than the one fitted.
\<close>

record standard_scaler =
  sc_mean :: "real list"
  sc_scale :: "real list"

record regressor =
  n_features_in :: nat
  predict_row :: "nat list \<Rightarrow> real list \<Rightarrow> real"

definition scaler_transform ::
  "standard_scaler option \<Rightarrow> nat \<Rightarrow> real list list \<Rightarrow> py_error + real list list"
where
  "scaler_transform sc width X =
     (case sc of
        None \<Rightarrow> Inl NotFittedError
      | Some s \<Rightarrow>
          if X = [] \<or> width = 0 then Inl ValueError
          else if width \<noteq> length (sc_mean s) then Inl ValueError
          else Inr (map (\<lambda>row. map (\<lambda>(x, m, d). (x - m) / d)
                                   (zip row (zip (sc_mean s) (sc_scale s)))) X))"

definition regressor_predict ::
  "regressor option \<Rightarrow> nat list \<Rightarrow> nat \<Rightarrow> real list list \<Rightarrow> py_error + real list"
where
  "regressor_predict rg thread_order width X =
     (case rg of
        None \<Rightarrow> Inl AttributeError
      | Some r \<Rightarrow>
          if width \<noteq> n_features_in r then Inl ValueError
          else Inr (map (predict_row r thread_order) X))"


section \<open>The budget model: \<open>models/budget_prediction/ml_budget_model.py\<close>\<close>

text \<open>
  The state of an \<open>MLBudgetModel\<close>; \<open>MLRankingModel\<close> has the same four attributes and
  the same \<open>predict\<close>.
\<close>

record ml_model =
  model :: "regressor option"
  scaler :: "standard_scaler option"
  feature_names :: "string list"
  is_trained :: bool

text \<open>The instance \<open>__init__\<close> builds when no model path is given.\<close>

definition new_model :: ml_model where
  "new_model = \<lparr>model = None, scaler = None, feature_names = [], is_trained = False\<rparr>"

definition predict :: "ml_model \<Rightarrow> nat list \<Rightarrow> dataframe \<Rightarrow> py_error + real list" where
  "predict m thread_order X =
     (if \<not> is_trained m then Inl ValueError
      else case select_columns (columns X) (feature_names m) of
             Inl e \<Rightarrow> Inl e
           | Inr cs \<Rightarrow>
               (case numeric_columns cs of
                  Inl e \<Rightarrow> Inl e
                | Inr ns \<Rightarrow>
                    (let width = length (feature_names m);
                         rows = rows_of (length (index X)) ns
                     in case scaler_transform (scaler m) width rows of
                          Inl e \<Rightarrow> Inl e
                        | Inr X_scaled \<Rightarrow>
                            regressor_predict (model m) thread_order width X_scaled)))"

text \<open>
  \<open>pd.DataFrame([trip_features])\<close>: one row labelled 0, one column per key of the dict
  (the values are numbers).
\<close>

definition frame_of_dict :: "(string \<times> real) list \<Rightarrow> dataframe" where
  "frame_of_dict d = \<lparr>index = [0], columns = map (\<lambda>(k, v). (k, NumCol [v])) d\<rparr>"

text \<open>The loop \<open>for feat in self.feature_names: if feat not in df.columns: df[feat] = 0\<close>.\<close>

fun fill_missing :: "dataframe \<Rightarrow> string list \<Rightarrow> dataframe" where
  "fill_missing df [] = df"
| "fill_missing df (feat # feats) =
     fill_missing
       (if map_of (columns df) feat = None
        then set_column df feat (NumCol (replicate (length (index df)) 0))
        else df)
       feats"

definition predict_trip_budget ::
  "ml_model \<Rightarrow> nat list \<Rightarrow> (string \<times> real) list \<Rightarrow> py_error + real"
where
  "predict_trip_budget m thread_order trip_features =
     (if \<not> is_trained m then Inl ValueError
      else
        (let df = frame_of_dict trip_features;
             df = fill_missing df (feature_names m)
         in case select_columns (columns df) (feature_names m) of
              Inl e \<Rightarrow> Inl e
            | Inr cs \<Rightarrow>
                (case predict m thread_order (df\<lparr>columns := cs\<rparr>) of
                   Inl e \<Rightarrow> Inl e
                 | Inr predictions \<Rightarrow>
                     (case predictions of [] \<Rightarrow> Inl IndexError | p # _ \<Rightarrow> Inr p))))"

text \<open>
  The invariant of a trained model: a regressor and a fitted scaler whose widths are the
  number of stored feature names, the names distinct and at least one.
\<close>

definition fitted :: "ml_model \<Rightarrow> bool" where
  "fitted m =
     (is_trained m \<and> feature_names m \<noteq> [] \<and> distinct (feature_names m)
      \<and> (case (model m, scaler m) of
            (Some r, Some s) \<Rightarrow>
              n_features_in r = length (feature_names m)
              \<and> length (sc_mean s) = length (feature_names m)
              \<and> length (sc_scale s) = length (feature_names m)
              \<and> 0 \<notin> set (sc_scale s)
          | _ \<Rightarrow> False))"

text \<open>A model and a frame used to evaluate the budget model.\<close>

definition example_budget_model :: ml_model where
  "example_budget_model =
     \<lparr>model = Some \<lparr>n_features_in = 2, predict_row = (\<lambda>thread_order row. 100 + 40 * sum_list row)\<rparr>,
      scaler = Some \<lparr>sc_mean = [5, 2], sc_scale = [2, 1]\<rparr>,
      feature_names = [''num_days'', ''num_people''],
      is_trained = True\<rparr>"

definition days_only_frame :: dataframe where
  "days_only_frame = \<lparr>index = [0], columns = [(''num_days'', NumCol [7])]\<rparr>"


section \<open>The ranking model: \<open>models/recommender/ml_ranking_model.py\<close>\<close>

text \<open>
  The user features are a dict from feature names to numbers, kept in insertion order.
  A result is the dict \<open>rank_places\<close> builds for a row; \<open>row.get(key, default)\<close> reads the
  cell of a column at the row, or the default when the frame has no such column, and
  \<open>row.name\<close> is the row's label.
\<close>

datatype cell = Num real | Str string

record ranked_result =
  res_place_id :: cell
  res_name :: cell
  res_score :: real
  res_rating :: cell
  res_category :: cell
  res_price_level :: cell

definition row_get :: "dataframe \<Rightarrow> nat \<Rightarrow> string \<Rightarrow> cell \<Rightarrow> cell" where
  "row_get df i key fallback =
     (case map_of (columns df) key of
        None \<Rightarrow> fallback
      | Some (NumCol xs) \<Rightarrow> Num (xs ! i)
      | Some (StrCol xs) \<Rightarrow> Str (xs ! i))"

definition result_row :: "dataframe \<Rightarrow> real list \<Rightarrow> nat \<Rightarrow> ranked_result" where
  "result_row df scores i =
     \<lparr>res_place_id = row_get df i ''place_id'' (Num (real (index df ! i))),
      res_name = row_get df i ''name'' (Str ''Unknown''),
      res_score = scores ! i,
      res_rating = row_get df i ''rating'' (Num 0),
      res_category = row_get df i ''category'' (Str ''Unknown''),
      res_price_level = row_get df i ''price_level'' (Num 2)\<rparr>"

text \<open>
  \<open>df.sort_values(col, ascending=False)\<close> as the row positions in the sorted order (rows of
  equal score are kept in frame order here; pandas promises no order among them), and
  \<open>.head(k)\<close>, which for a negative \<open>k\<close> drops the last \<open>-k\<close> rows.
\<close>

definition sort_values_desc :: "real list \<Rightarrow> nat list" where
  "sort_values_desc scores = py_sorted_reverse (\<lambda>i. scores ! i) [0 ..< length scores]"

definition df_head :: "int \<Rightarrow> 'a list \<Rightarrow> 'a list" where
  "df_head k xs = (if 0 \<le> k then take (nat k) xs else take (length xs - nat (- k)) xs)"

text \<open>\<open>s.replace(pat, '')\<close>: every occurrence of \<open>pat\<close> is removed, left to right.\<close>

fun remove_all :: "string \<Rightarrow> string \<Rightarrow> string" where
  "remove_all pat [] = []"
| "remove_all pat (c # cs) =
     (if pat \<noteq> [] \<and> prefix pat (c # cs)
      then remove_all pat (drop (length pat) (c # cs))
      else c # remove_all pat cs)"

definition user_interests_of :: "(string \<times> real) list \<Rightarrow> string list" where
  "user_interests_of user_features =
     map (\<lambda>(k, v). remove_all ''interest_'' k)
       (filter (\<lambda>(k, v). prefix ''interest_'' k \<and> v = 1) user_features)"

definition category_interest_map :: "string \<rightharpoonup> string list" where
  "category_interest_map = map_of
     [(''museum'', [''culture'', ''history'']),
      (''restaurant'', [''food'']),
      (''park'', [''nature'', ''relaxation'']),
      (''beach'', [''beach'', ''relaxation'']),
      (''shopping'', [''shopping'']),
      (''nightlife'', [''nightlife'']),
      (''attraction'', [''culture'', ''adventure''])]"

definition interest_boost :: "string list \<Rightarrow> string \<Rightarrow> real" where
  "interest_boost user_interests c =
     (let cat_interests = (case category_interest_map (lower c) of None \<Rightarrow> [] | Some is \<Rightarrow> is);
          matches = card (set user_interests \<inter> set cat_interests)
      in real matches * 0.2)"

text \<open>Arithmetic on a column: a text column raises \<open>TypeError\<close>.\<close>

definition numeric_column :: "column \<Rightarrow> py_error + real list" where
  "numeric_column c = (case c of NumCol xs \<Rightarrow> Inr xs | StrCol xs \<Rightarrow> Inl TypeError)"

text \<open>
  \<open>_fallback_ranking\<close> works on a copy of the frame; the columns \<open>score\<close> and
  \<open>budget_penalty\<close> it adds to the copy are kept here as the list \<open>score\<close> (no result key
  reads them through \<open>row.get\<close>). \<open>category.lower()\<close> on a cell that is not text raises
  \<open>AttributeError\<close>.
\<close>

definition fallback_ranking ::
  "dataframe \<Rightarrow> (string \<times> real) list \<Rightarrow> int \<Rightarrow> py_error + ranked_result list"
where
  "fallback_ranking places_df user_features top_k =
     (let n = length (index places_df); cols = map_of (columns places_df)
      in case (case cols ''rating'' of
                 None \<Rightarrow> Inr (replicate n (4 / 5))
               | Some c \<Rightarrow> map_sum id (map (\<lambda>r. r / 5)) (numeric_column c)) of
           Inl e \<Rightarrow> Inl e
         | Inr score \<Rightarrow>
       (case (case cols ''reviews_count'' of
                None \<Rightarrow> Inr score
              | Some c \<Rightarrow>
                  map_sum id (map2 (\<lambda>s x. s + ln (1 + x) / 10) score) (numeric_column c)) of
           Inl e \<Rightarrow> Inl e
         | Inr score \<Rightarrow>
       (let user_budget =
              (case map_of user_features ''budget_encoded'' of None \<Rightarrow> 2 | Some b \<Rightarrow> b)
        in case (case cols ''price_level'' of
                   None \<Rightarrow> Inr score
                 | Some c \<Rightarrow>
                     map_sum id (map2 (\<lambda>s p. s - \<bar>p - user_budget\<bar> * 0.1) score)
                       (numeric_column c)) of
             Inl e \<Rightarrow> Inl e
           | Inr score \<Rightarrow>
       (let user_interests = user_interests_of user_features
        in case (case cols ''category'' of
                   None \<Rightarrow> Inr score
                 | Some c \<Rightarrow>
                     if user_interests = [] then Inr score
                     else (case c of
                             StrCol cs \<Rightarrow>
                               Inr (map2 (\<lambda>s c. s + interest_boost user_interests c) score cs)
                           | NumCol xs \<Rightarrow> if xs = [] then Inr score else Inl AttributeError)) of
             Inl e \<Rightarrow> Inl e
           | Inr score \<Rightarrow>
               Inr (map (result_row places_df score)
                      (df_head top_k (sort_values_desc score)))))))"

text \<open>\<open>for key, value in user_features.items(): places_df[key] = value\<close>\<close>

definition broadcast_user_features :: "dataframe \<Rightarrow> (string \<times> real) list \<Rightarrow> dataframe" where
  "broadcast_user_features df user_features =
     fold (\<lambda>(key, v) d. set_column d key (NumCol (replicate (length (index d)) v)))
       user_features df"

text \<open>
  \<open>rank_places\<close> returns its result (or the exception it lets through) together with the
  caller's frame as the call leaves it. \<open>except Exception\<close> catches every error of
  \<open>predict\<close>.
\<close>

definition MLRankingModel_rank_places ::
  "ml_model \<Rightarrow> nat list \<Rightarrow> dataframe \<Rightarrow> (string \<times> real) list \<Rightarrow> int
     \<Rightarrow> (py_error + ranked_result list) \<times> dataframe"
where
  "MLRankingModel_rank_places m thread_order places_df user_features top_k =
     (if \<not> is_trained m then (fallback_ranking places_df user_features top_k, places_df)
      else
        (let places_df = broadcast_user_features places_df user_features
         in case predict m thread_order places_df of
              Inl e \<Rightarrow> (fallback_ranking places_df user_features top_k, places_df)
            | Inr scores \<Rightarrow>
                (let places_df = set_column places_df ''ml_score'' (NumCol scores);
                     ranked = df_head top_k (sort_values_desc scores)
                 in (Inr (map (result_row places_df scores) ranked), places_df))))"

text \<open>Frames, user features and models used to evaluate the ranking model.\<close>

definition sample_places :: dataframe where
  "sample_places =
     \<lparr>index = [0, 1, 2],
      columns =
        [(''place_id'', NumCol [1, 2, 3]),
         (''name'', StrCol [''Museum'', ''Park'', ''Beach'']),
         (''category'', StrCol [''museum'', ''park'', ''beach'']),
         (''rating'', NumCol [4.5, 4, 5]),
         (''reviews_count'', NumCol [0, 0, 0]),
         (''price_level'', NumCol [2, 1, 3])]\<rparr>"

definition sample_user :: "(string \<times> real) list" where
  "sample_user = [(''interest_culture'', 1), (''budget_encoded'', 2)]"

definition rating_model :: ml_model where
  "rating_model =
     \<lparr>model = Some \<lparr>n_features_in = 2, predict_row = (\<lambda>thread_order. sum_list)\<rparr>,
      scaler = Some \<lparr>sc_mean = [0, 0], sc_scale = [1, 1]\<rparr>,
      feature_names = [''rating'', ''budget_encoded''],
      is_trained = True\<rparr>"

definition distance_model :: ml_model where
  "distance_model =
     \<lparr>model = Some \<lparr>n_features_in = 1, predict_row = (\<lambda>thread_order. sum_list)\<rparr>,
      scaler = Some \<lparr>sc_mean = [0], sc_scale = [1]\<rparr>,
      feature_names = [''distance_km''],
      is_trained = True\<rparr>"


section \<open>Properties of the place scorer\<close>

text \<open>Evaluation of the double arithmetic at numerals.\<close>

lemma float_exponent_numeral:
  "float_exponent (numeral k) x =
     (if 2 \<le> x then float_exponent (pred_numeral k) (x / 2) + 1
      else if x < 1 then float_exponent (pred_numeral k) (x * 2) - 1
      else 0)"
  by (simp add: numeral_eq_Suc)

lemmas float_eval =
  binary64_def fadd_def fsub_def fmul_def fdiv_def py_round_def round_half_even_def
  float_exponent_numeral Let_def

lemma half_plus_tenth: "fadd (1 / 2) (binary64 0.1) = binary64 0.6"
  by (simp add: float_eval)

lemma score_loop_length: "length (score_loop pw interests clat clon month cc ps) = length ps"
  by (induction ps arbitrary: cc) (simp_all add: Let_def)

lemma score_loop_base: "map base (score_loop pw interests clat clon month cc ps) = ps"
  by (induction ps arbitrary: cc) (simp_all add: Let_def score_place_def)

lemma score_loop_nth:
  "i < length ps \<Longrightarrow>
   score_loop pw interests clat clon month cc ps ! i =
     score_place (ps ! i) (calculate_popularity (ps ! i))
       (calculate_interest_match (ps ! i) interests)
       (calculate_season_fit month (ps ! i))
       (calculate_distance_score pw (lat (ps ! i)) (lon (ps ! i)) clat clon)
       (fdiv 1 (fadd 1 (fmul
          (binary64 (real (cc (category (ps ! i))
                           + length (filter (\<lambda>q. category q = category (ps ! i)) (take i ps)))))
          (binary64 0.1))))"
proof (induction ps arbitrary: cc i)
  case Nil
  then show ?case by simp
next
  case (Cons p ps)
  show ?case
  proof (cases i)
    case 0
    then show ?thesis by (simp add: Let_def)
  next
    case (Suc j)
    with Cons.prems have j: "j < length ps" by simp
    let ?cc = "cc(category p := cc (category p) + 1)"
    have cnt: "?cc (category (ps ! j))
               + length (filter (\<lambda>q. category q = category (ps ! j)) (take j ps))
             = cc (category ((p # ps) ! i))
               + length (filter (\<lambda>q. category q = category ((p # ps) ! i)) (take i (p # ps)))"
      using Suc by simp
    have "score_loop pw interests clat clon month cc (p # ps) ! i
          = score_loop pw interests clat clon month ?cc ps ! j"
      using Suc by (simp add: Let_def)
    also note Cons.IH [OF j, of ?cc]
    finally show ?thesis
      unfolding cnt using Suc by simp
  qed
qed

lemma assign_ranks_length: "length (assign_ranks i ss) = length ss"
  by (induction ss arbitrary: i) simp_all

lemma assign_ranks_rank: "map rank (assign_ranks i ss) = [i ..< i + length ss]"
  by (induction ss arbitrary: i) (simp_all add: upt_rec)

lemma assign_ranks_unranked: "map unranked (assign_ranks i ss) = ss"
  by (induction ss arbitrary: i) (simp_all add: unranked_def)

lemma py_sorted_reverse_mset: "mset (py_sorted_reverse k xs) = mset xs"
  by (simp add: py_sorted_reverse_def)

lemma py_sorted_reverse_descending: "sorted (rev (map k (py_sorted_reverse k xs)))"
  by (simp add: py_sorted_reverse_def rev_map)

lemma py_sorted_reverse_stable:
  "filter (\<lambda>y. k y = v) (py_sorted_reverse k xs) = filter (\<lambda>y. k y = v) xs"
  by (simp add: py_sorted_reverse_def rev_filter [symmetric] sort_key_stable)

text \<open>
  Against claim C4 as stated: with no interests the interest-match score of a place is not 0.
\<close>

theorem interest_match_none_counterexample:
  "calculate_interest_match example_beach None \<noteq> 0"
  by (simp add: calculate_interest_match_def)

text \<open>
  Claim C4, amended: with \<open>interests\<close> \<open>None\<close> or the empty list, \<open>_calculate_interest_match\<close>
  returns the neutral score 0.5 for every place.
\<close>

theorem interest_match_no_interests:
  "calculate_interest_match p None = 0.5 \<and> calculate_interest_match p (Some []) = 0.5"
  by (simp add: calculate_interest_match_def)

text \<open>
  Against claim C5 as stated: a place of category \<open>attraction\<close> with no Wikipedia, website or
  description tag has popularity 0.5, not 0.6 (neither the decimal nor the float); the
  bonus reads the \<open>tourism\<close> tag.
\<close>

theorem popularity_attraction_category_counterexample:
  "tags example_attraction ''wikipedia'' = None \<and> tags example_attraction ''website'' = None
   \<and> tags example_attraction ''description'' = None
   \<and> category example_attraction = ''attraction''
   \<and> calculate_popularity example_attraction \<noteq> 0.6
   \<and> calculate_popularity example_attraction \<noteq> binary64 0.6"
proof -
  have "calculate_popularity example_attraction = 1 / 2"
    by (simp add: calculate_popularity_def example_attraction_def truthy_def)
  moreover have "binary64 0.6 \<noteq> 1 / 2"
    by (simp add: float_eval)
  ultimately show ?thesis
    by (simp add: example_attraction_def)
qed

text \<open>
  Claim C5, amended: for a place whose tags hold no (or an empty) Wikipedia, website and
  description entry, \<open>_calculate_popularity\<close> returns the float 0.6 (the sum \<open>0.5 + 0.1\<close>)
  when the tag \<open>tourism\<close> is \<open>attraction\<close> and the base 0.5 otherwise, whatever the category.
\<close>

theorem popularity_without_links:
  assumes "\<not> truthy (tags p ''wikipedia'')" "\<not> truthy (tags p ''website'')"
    "\<not> truthy (tags p ''description'')"
  shows "calculate_popularity p =
           (if tags p ''tourism'' = Some ''attraction'' then binary64 0.6 else 0.5)"
proof -
  have "min (binary64 0.6) 1 = binary64 0.6"
    by (simp add: float_eval)
  with assms show ?thesis
    by (simp add: calculate_popularity_def half_plus_tenth)
qed

theorem popularity_without_links_witness:
  "calculate_popularity example_tourism = binary64 0.6
   \<and> calculate_popularity example_attraction = 0.5"
  using popularity_without_links [of example_tourism] popularity_without_links [of example_attraction]
  by (simp add: example_tourism_def example_attraction_def truthy_def)

text \<open>
  Claim C9: in the scoring loop of \<open>_rank_places\<close>, the place at input position \<open>i\<close>, being the
  \<open>k\<close>-th of its category in input order (\<open>k\<close> counted from 1), is scored with the diversity
  sub-score \<open>1.0 / (1.0 + (k - 1) * 0.1)\<close>, computed in floats.
\<close>

theorem diversity_kth_of_category:
  assumes "i < length places"
    and "k = length (filter (\<lambda>q. category q = category (places ! i)) (take (Suc i) places))"
  shows "score_loop libm_pow interests center_lat center_lon month (\<lambda>_. 0) places ! i =
           score_place (places ! i) (calculate_popularity (places ! i))
             (calculate_interest_match (places ! i) interests)
             (calculate_season_fit month (places ! i))
             (calculate_distance_score libm_pow (lat (places ! i)) (lon (places ! i))
                center_lat center_lon)
             (fdiv 1 (fadd 1 (fmul (binary64 (real k - 1)) (binary64 0.1))))"
proof -
  have "real k - 1 = real (length (filter (\<lambda>q. category q = category (places ! i)) (take i places)))"
    using assms by (simp add: take_Suc_conv_app_nth)
  then show ?thesis
    using score_loop_nth [OF assms(1), of libm_pow interests center_lat center_lon month "\<lambda>_. 0"]
    by simp
qed

theorem diversity_kth_of_category_witness:
  "score_loop rounded_pow None 0 0 7 (\<lambda>_. 0) [example_beach, example_museum, example_beach] ! 2 =
     score_place example_beach (1 / 2) (1 / 2) 1 1 (binary64 (10 / 11))
   \<and> diversity (score_breakdown
        (score_loop rounded_pow None 0 0 7 (\<lambda>_. 0)
           [example_beach, example_museum, example_beach] ! 2)) = binary64 0.91"
proof -
  let ?ps = "[example_beach, example_museum, example_beach]"
  have k: "(2::nat) = length (filter (\<lambda>q. category q = category (?ps ! 2)) (take (Suc 2) ?ps))"
    by (simp add: example_beach_def example_museum_def)
  have n: "?ps ! 2 = example_beach" by simp
  have t1: "calculate_popularity example_beach = 1 / 2"
    by (simp add: calculate_popularity_def example_beach_def truthy_def)
  have t2: "calculate_interest_match example_beach None = 1 / 2"
    by (simp add: calculate_interest_match_def)
  have t3: "calculate_season_fit 7 example_beach = 1"
    by (simp add: calculate_season_fit_def example_beach_def lower_def lower_char_def sublist_code)
  have t4: "calculate_distance_score rounded_pow (lat example_beach) (lon example_beach) 0 0 = 1"
    by (simp add: calculate_distance_score_def example_beach_def rounded_pow_def float_eval)
  have t5: "fdiv 1 (fadd 1 (fmul (binary64 (real 2 - 1)) (binary64 0.1))) = binary64 (10 / 11)"
    by (simp add: float_eval)
  have "score_loop rounded_pow None 0 0 7 (\<lambda>_. 0) ?ps ! 2 =
     score_place (?ps ! 2) (calculate_popularity (?ps ! 2))
             (calculate_interest_match (?ps ! 2) None)
             (calculate_season_fit 7 (?ps ! 2))
             (calculate_distance_score rounded_pow (lat (?ps ! 2)) (lon (?ps ! 2)) 0 0)
             (fdiv 1 (fadd 1 (fmul (binary64 (real 2 - 1)) (binary64 0.1))))"
    by (rule diversity_kth_of_category [OF _ k]) simp
  then have s: "score_loop rounded_pow None 0 0 7 (\<lambda>_. 0) ?ps ! 2 =
     score_place example_beach (1 / 2) (1 / 2) 1 1 (binary64 (10 / 11))"
    by (simp only: n t1 t2 t3 t4 t5)
  have "diversity (score_breakdown (score_place example_beach (1 / 2) (1 / 2) 1 1 (binary64 (10 / 11))))
      = binary64 0.91"
    by (simp add: score_place_def float_eval)
  with s show ?thesis by simp
qed

text \<open>
  A decimal tie is decided by the float: the weighted sum of the sub-scores 0.5, 0.125, 0.8,
  1.0 and 1.0 is 0.56625 in decimals, the float sum lies just above it, and \<open>round\<close> gives
  0.5663.
\<close>

lemma rank_score_decimal_tie:
  "rank_score (score_place p (1 / 2) (1 / 8) (binary64 0.8) 1 1) = binary64 0.5663"
  by (simp add: score_place_def float_eval)

text \<open>
  Claim C1: \<open>_rank_places\<close> scores the input places in order, each \<open>rank_score\<close> being the
  weighted sum \<open>0.35 * popularity + 0.25 * interest + 0.20 * season + 0.10 * distance +
  0.10 * diversity\<close> of the five sub-scores, computed in floats from left to right and
  rounded to 4 decimals by \<open>round\<close>; the output holds the same scored places, in descending
  order of \<open>rank_score\<close>, with \<open>rank\<close> running from 1 to N in output order, and places of
  equal \<open>rank_score\<close> keep their input order.
\<close>

theorem rank_places_ranking:
  fixes places interests center_lat center_lon month libm_pow
  defines "scored \<equiv> score_loop libm_pow interests center_lat center_lon month (\<lambda>_. 0) places"
    and "out \<equiv> OSMRecommender_rank_places libm_pow places interests center_lat center_lon month"
  shows "map base scored = places
     \<and> (\<forall>i < length places.
          rank_score (scored ! i) =
            py_round
              (fadd (fadd (fadd (fadd
                 (fmul (binary64 0.35) (calculate_popularity (places ! i)))
                 (fmul (binary64 0.25) (calculate_interest_match (places ! i) interests)))
                 (fmul (binary64 0.20) (calculate_season_fit month (places ! i))))
                 (fmul (binary64 0.10)
                    (calculate_distance_score libm_pow (lat (places ! i)) (lon (places ! i))
                       center_lat center_lon)))
                 (fmul (binary64 0.10)
                    (fdiv 1 (fadd 1 (fmul
                       (binary64 (real (length
                          (filter (\<lambda>q. category q = category (places ! i)) (take i places)))))
                       (binary64 0.1))))))
              4)
     \<and> mset (map unranked out) = mset scored
     \<and> sorted (rev (map rank_score out))
     \<and> map rank out = [1 ..< Suc (length places)]
     \<and> (\<forall>v. filter (\<lambda>s. rank_score s = v) (map unranked out)
             = filter (\<lambda>s. rank_score s = v) scored)"
proof -
  let ?ranked = "py_sorted_reverse rank_score scored"
  have out: "out = assign_ranks 1 ?ranked"
    by (simp add: out_def scored_def OSMRecommender_rank_places_def)
  have un: "map unranked out = ?ranked"
    by (simp add: out assign_ranks_unranked)
  have rs: "map rank_score out = map rank_score ?ranked"
  proof -
    have "map rank_score out = map rank_score (map unranked out)"
      by (simp add: unranked_def)
    then show ?thesis by (simp only: un)
  qed
  have a: "map base scored = places"
    by (simp add: scored_def score_loop_base)
  have b: "\<forall>i < length places.
          rank_score (scored ! i) =
            py_round
              (fadd (fadd (fadd (fadd
                 (fmul (binary64 0.35) (calculate_popularity (places ! i)))
                 (fmul (binary64 0.25) (calculate_interest_match (places ! i) interests)))
                 (fmul (binary64 0.20) (calculate_season_fit month (places ! i))))
                 (fmul (binary64 0.10)
                    (calculate_distance_score libm_pow (lat (places ! i)) (lon (places ! i))
                       center_lat center_lon)))
                 (fmul (binary64 0.10)
                    (fdiv 1 (fadd 1 (fmul
                       (binary64 (real (length
                          (filter (\<lambda>q. category q = category (places ! i)) (take i places)))))
                       (binary64 0.1))))))
              4"
    by (simp add: scored_def score_loop_nth score_place_def)
  have c: "mset (map unranked out) = mset scored"
    by (simp only: un py_sorted_reverse_mset)
  have d: "sorted (rev (map rank_score out))"
    by (simp only: rs py_sorted_reverse_descending)
  have e: "map rank out = [1 ..< Suc (length places)]"
    by (simp add: out assign_ranks_rank py_sorted_reverse_def scored_def score_loop_length)
  have f: "\<forall>v. filter (\<lambda>s. rank_score s = v) (map unranked out)
             = filter (\<lambda>s. rank_score s = v) scored"
    by (simp only: un py_sorted_reverse_stable) simp
  from a b c d e f show ?thesis by blast
qed

theorem rank_places_ranking_witness:
  "map rank (OSMRecommender_rank_places rounded_pow [example_beach, example_museum, example_beach]
               None 0 0 7) = [1, 2, 3]
   \<and> rank_score (score_loop rounded_pow None 0 0 7 (\<lambda>_. 0)
                    [example_beach, example_museum, example_beach] ! 2)
       = binary64 0.6909
   \<and> sorted (rev (map rank_score
        (OSMRecommender_rank_places rounded_pow [example_beach, example_museum, example_beach]
           None 0 0 7)))"
proof -
  let ?ps = "[example_beach, example_museum, example_beach]"
  note h = rank_places_ranking [of rounded_pow None 0 0 7 ?ps]
  have u: "[1 ..< Suc (length ?ps)] = [1, 2, 3]"
    by code_simp
  from h have "map rank (OSMRecommender_rank_places rounded_pow ?ps None 0 0 7)
      = [1 ..< Suc (length ?ps)]"
    by blast
  then have r: "map rank (OSMRecommender_rank_places rounded_pow ?ps None 0 0 7) = [1, 2, 3]"
    by (simp only: u)
  have n: "?ps ! 2 = example_beach" by simp
  have t1: "calculate_popularity example_beach = 1 / 2"
    by (simp add: calculate_popularity_def example_beach_def truthy_def)
  have t2: "calculate_interest_match example_beach None = 1 / 2"
    by (simp add: calculate_interest_match_def)
  have t3: "calculate_season_fit 7 example_beach = 1"
    by (simp add: calculate_season_fit_def example_beach_def lower_def lower_char_def sublist_code)
  have t4: "calculate_distance_score rounded_pow (lat example_beach) (lon example_beach) 0 0 = 1"
    by (simp add: calculate_distance_score_def example_beach_def rounded_pow_def float_eval)
  have t5: "length (filter (\<lambda>q. category q = category example_beach) (take 2 ?ps)) = 1"
    by (simp add: example_beach_def example_museum_def numeral_2_eq_2)
  have t6: "py_round
              (fadd (fadd (fadd (fadd
                 (fmul (binary64 0.35) (1 / 2))
                 (fmul (binary64 0.25) (1 / 2)))
                 (fmul (binary64 0.20) 1))
                 (fmul (binary64 0.10) 1))
                 (fmul (binary64 0.10)
                    (fdiv 1 (fadd 1 (fmul (binary64 (real (1::nat))) (binary64 0.1))))))
              4 = binary64 0.6909"
    by (simp add: float_eval)
  from h have "\<forall>i < length ?ps.
          rank_score (score_loop rounded_pow None 0 0 7 (\<lambda>_. 0) ?ps ! i) =
            py_round
              (fadd (fadd (fadd (fadd
                 (fmul (binary64 0.35) (calculate_popularity (?ps ! i)))
                 (fmul (binary64 0.25) (calculate_interest_match (?ps ! i) None)))
                 (fmul (binary64 0.20) (calculate_season_fit 7 (?ps ! i))))
                 (fmul (binary64 0.10)
                    (calculate_distance_score rounded_pow (lat (?ps ! i)) (lon (?ps ! i)) 0 0)))
                 (fmul (binary64 0.10)
                    (fdiv 1 (fadd 1 (fmul
                       (binary64 (real (length
                          (filter (\<lambda>q. category q = category (?ps ! i)) (take i ?ps)))))
                       (binary64 0.1))))))
              4"
    by blast
  moreover have "2 < length ?ps" by simp
  ultimately have "rank_score (score_loop rounded_pow None 0 0 7 (\<lambda>_. 0) ?ps ! 2) =
            py_round
              (fadd (fadd (fadd (fadd
                 (fmul (binary64 0.35) (calculate_popularity (?ps ! 2)))
                 (fmul (binary64 0.25) (calculate_interest_match (?ps ! 2) None)))
                 (fmul (binary64 0.20) (calculate_season_fit 7 (?ps ! 2))))
                 (fmul (binary64 0.10)
                    (calculate_distance_score rounded_pow (lat (?ps ! 2)) (lon (?ps ! 2)) 0 0)))
                 (fmul (binary64 0.10)
                    (fdiv 1 (fadd 1 (fmul
                       (binary64 (real (length
                          (filter (\<lambda>q. category q = category (?ps ! 2)) (take 2 ?ps)))))
                       (binary64 0.1))))))
              4"
    by blast
  then have s: "rank_score (score_loop rounded_pow None 0 0 7 (\<lambda>_. 0) ?ps ! 2) = binary64 0.6909"
    by (simp only: n t1 t2 t3 t4 t5 t6)
  from h have d: "sorted (rev (map rank_score (OSMRecommender_rank_places rounded_pow ?ps None 0 0 7)))"
    by blast
  from r s d show ?thesis by blast
qed


section \<open>Properties of the feature engineer\<close>

lemma astype_int_all_some:
  "\<forall>c \<in> set cs. c \<noteq> None \<Longrightarrow> astype_int cs = Inr (map the cs)"
  by (induction cs rule: astype_int.induct) simp_all

lemma cut_rating_in_range:
  "0 < r \<Longrightarrow> r \<le> 5 \<Longrightarrow> cut_rating r = Some (if r \<le> 3 then 0 else if r \<le> 4 then 1 else 2)"
  by (simp add: cut_rating_def)

lemma map_zip3: "map f (zip (map g xs) (zip (map h xs) xs)) = map (\<lambda>x. f (g x, h x, x)) xs"
  by (induction xs) simp_all

lemma create_place_features_rated:
  assumes "\<forall>row \<in> set rows. 0 < rating row \<and> rating row \<le> 5"
  shows "create_place_features True rows =
    Inr (map (\<lambda>row. place_feature_row (rating row)
                (if rating row \<le> 3 then 0 else if rating row \<le> 4 then 1 else 2)
                (median (map (\<lambda>row. real (reviews_count row)) rows))
                (column_max (map (\<lambda>row. ln (1 + real (reviews_count row))) rows))
                (map row_category rows) row) rows)"
proof -
  have some: "\<forall>c \<in> set (map cut_rating (map rating rows)). c \<noteq> None"
    using assms by (auto simp: cut_rating_in_range)
  have the: "map the (map cut_rating (map rating rows))
      = map (\<lambda>row. if rating row \<le> 3 then 0 else if rating row \<le> 4 then 1 else 2) rows"
    using assms by (simp add: cut_rating_in_range)
  have ok: "astype_int (map cut_rating (map rating rows))
      = Inr (map (\<lambda>row. if rating row \<le> 3 then 0 else if rating row \<le> 4 then 1 else 2) rows)"
    using astype_int_all_some [OF some] by (simp only: the)
  show ?thesis
    unfolding create_place_features_def Let_def if_True ok
    by (simp add: map_zip3)
qed

lemma column_max_ge: "x \<in> set xs \<Longrightarrow> x \<le> column_max xs"
proof -
  assume x: "x \<in> set xs"
  then obtain y ys where xs: "xs = y # ys" by (cases xs) auto
  have "column_max xs = Max (set xs)"
    using Max.set_eq_fold [of y ys] by (simp add: xs column_max_def)
  with x show ?thesis by simp
qed

text \<open>
  Claim C6 at a batch holding a rating of 0: \<open>pd.cut\<close> leaves the rating in no bin, and
  \<open>.astype(int)\<close> raises \<open>ValueError\<close> on the resulting \<open>NaN\<close>; the call fails instead of
  assigning the low bucket.
\<close>

theorem create_place_features_zero_rating:
  "create_place_features True [unrated_place] = Inl ValueError"
  by (simp add: create_place_features_def unrated_place_def cut_rating_def)

text \<open>
  Every batch with ratings in \<open>(0, 5]\<close> whose largest \<open>log_reviews\<close> is 0 runs into the
  unguarded division \<open>log_reviews / log_reviews.max()\<close>: the call succeeds and
  \<open>quality_score\<close> is \<open>NaN\<close> in every row.
\<close>

lemma quality_score_nan_without_reviews:
  assumes "\<forall>row \<in> set rows. 0 < rating row \<and> rating row \<le> 5"
    and "column_max (map (\<lambda>row. ln (1 + real (reviews_count row))) rows) = 0"
  shows "\<exists>fs. create_place_features True rows = Inr fs \<and> length fs = length rows
           \<and> (\<forall>f \<in> set fs. quality_score f = NaN)"
proof -
  have zero: "ln (1 + real (reviews_count row)) = 0" if "row \<in> set rows" for row
  proof -
    have "ln (1 + real (reviews_count row)) \<le> 0"
      using column_max_ge [of "ln (1 + real (reviews_count row))"
          "map (\<lambda>row. ln (1 + real (reviews_count row))) rows"] that assms(2)
      by auto
    moreover have "0 \<le> ln (1 + real (reviews_count row))" by simp
    ultimately show ?thesis by simp
  qed
  show ?thesis
    using zero
    by (simp add: create_place_features_rated [OF assms(1)] assms(2) place_feature_row_def
        np_div_def np_scale_def)
qed

text \<open>
  Claim C7 at a batch of one place with no reviews: the largest \<open>log_reviews\<close> is 0, no
  guard replaces the term \<open>log_reviews / max\<close> by 0, the division is \<open>0/0\<close>, and
  \<open>quality_score\<close> is \<open>NaN\<close> instead of \<open>0.4 * rating_normalized + 0.3 * (5 - price_level) / 4\<close>
  (0.66 for this place).
\<close>

theorem quality_score_unreviewed_batch:
  "column_max (map (\<lambda>row. ln (1 + real (reviews_count row))) [unreviewed_place]) = 0
   \<and> map_sum id (map quality_score) (create_place_features True [unreviewed_place]) = Inr [NaN]
   \<and> 0.4 * (rating unreviewed_place / 5) + 0.3 * (5 - price_level unreviewed_place) / 4
       = (0.66 :: real)"
  by (simp add: create_place_features_def unreviewed_place_def cut_rating_def column_max_def
      place_feature_row_def np_div_def np_scale_def)


section \<open>Properties of the budget model\<close>

lemma fill_missing_index: "index (fill_missing df fs) = index df"
  by (induction fs arbitrary: df) (simp_all add: set_column_def)

lemma fill_missing_lookup:
  "map_of (columns (fill_missing df fs)) f =
     (if f \<in> set fs \<and> map_of (columns df) f = None
      then Some (NumCol (replicate (length (index df)) 0))
      else map_of (columns df) f)"
  by (induction fs arbitrary: df) (auto simp: set_column_def update_conv')

lemma select_columns_present:
  "\<forall>f \<in> set fs. map_of cols f \<noteq> None \<Longrightarrow>
   select_columns cols fs = Inr (map (\<lambda>f. (f, the (map_of cols f))) fs)"
  by (induction fs) auto

lemma select_columns_missing:
  "f \<in> set fs \<Longrightarrow> map_of cols f = None \<Longrightarrow> select_columns cols fs = Inl KeyError"
  by (induction fs) (auto split: option.splits sum.splits)

lemma map_of_keyed: "f \<in> set fs \<Longrightarrow> map_of (map (\<lambda>f. (f, g f)) fs) f = Some (g f)"
  by (induction fs) auto

lemma numeric_columns_num:
  "numeric_columns (map (\<lambda>f. (f, NumCol (g f))) fs) = Inr (map g fs)"
  by (induction fs) simp_all

lemma frame_of_dict_lookup:
  "map_of (columns (frame_of_dict d)) f = map_option (\<lambda>v. NumCol [v]) (map_of d f)"
  by (induction d) (auto simp: frame_of_dict_def)

lemma frame_of_dict_index: "index (frame_of_dict d) = [0]"
  by (simp add: frame_of_dict_def)

text \<open>The value a trip feature has in the one-row frame after the zero fill.\<close>

lemma trip_cell:
  "f \<in> set fs \<Longrightarrow>
   map_of (columns (fill_missing (frame_of_dict d) fs)) f
     = Some (NumCol [case map_of d f of None \<Rightarrow> 0 | Some v \<Rightarrow> v])"
  by (simp add: fill_missing_lookup frame_of_dict_lookup frame_of_dict_index split: option.splits)

lemma predict_trip_budget_fitted:
  assumes "fitted m"
  shows "predict_trip_budget m thread_order d =
     Inr (predict_row (the (model m)) thread_order
            (map (\<lambda>(x, mu, s). (x - mu) / s)
               (zip (map (\<lambda>f. case map_of d f of None \<Rightarrow> 0 | Some v \<Rightarrow> v) (feature_names m))
                    (zip (sc_mean (the (scaler m))) (sc_scale (the (scaler m)))))))"
proof -
  let ?fs = "feature_names m"
  let ?val = "\<lambda>f. case map_of d f of None \<Rightarrow> 0 | Some v \<Rightarrow> v"
  let ?df = "fill_missing (frame_of_dict d) ?fs"
  let ?cs = "map (\<lambda>f. (f, NumCol [?val f])) ?fs"
  from assms obtain r s where ms: "model m = Some r" "scaler m = Some s"
    and tr: "is_trained m" and ne: "?fs \<noteq> []"
    and w: "n_features_in r = length ?fs" "length (sc_mean s) = length ?fs"
    by (auto simp: fitted_def split: option.splits)
  have sel: "select_columns (columns ?df) ?fs = Inr ?cs"
  proof -
    have "\<forall>f \<in> set ?fs. map_of (columns ?df) f \<noteq> None"
      by (simp add: trip_cell)
    from select_columns_present [OF this] show ?thesis
      by (simp add: trip_cell cong: map_cong)
  qed
  have sel2: "select_columns ?cs ?fs = Inr ?cs"
  proof -
    have "\<forall>f \<in> set ?fs. map_of ?cs f \<noteq> None"
      by (simp add: map_of_keyed)
    from select_columns_present [OF this] show ?thesis
      by (simp add: map_of_keyed cong: map_cong)
  qed
  have num: "numeric_columns ?cs = Inr (map (\<lambda>f. [?val f]) ?fs)"
    by (rule numeric_columns_num)
  have rows: "rows_of (length (index ?df)) (map (\<lambda>f. [?val f]) ?fs) = [map ?val ?fs]"
    by (simp add: fill_missing_index frame_of_dict_def rows_of_def comp_def)
  have pr: "predict m thread_order (?df\<lparr>columns := ?cs\<rparr>) =
      Inr [predict_row r thread_order (map (\<lambda>(x, mu, s). (x - mu) / s)
               (zip (map ?val ?fs) (zip (sc_mean s) (sc_scale s))))]"
    using tr ne w
    by (simp add: predict_def sel2 num rows ms scaler_transform_def regressor_predict_def)
  show ?thesis
    using tr by (simp add: predict_trip_budget_def Let_def sel pr ms)
qed

text \<open>
  Against claim C3 as stated: \<open>predict\<close> of a trained model on a frame that lacks a stored
  feature raises \<open>KeyError\<close>; nothing is filled in.
\<close>

theorem predict_missing_feature_counterexample:
  "fitted example_budget_model
   \<and> map_of (columns days_only_frame) ''num_people'' = None
   \<and> predict example_budget_model [] days_only_frame = Inl KeyError"
  by (simp add: fitted_def example_budget_model_def days_only_frame_def predict_def)

text \<open>
  Claim C3, amended: the zero fill is done by \<open>predict_trip_budget\<close>: for a trained model
  and any feature dict, the stored features the dict omits are set to 0, the columns are put
  in the stored order, and the scaled row is given to the regressor, with no error.
  \<open>predict\<close> itself raises \<open>KeyError\<close> when a stored feature name is not a column of its input.
\<close>

theorem predict_trip_budget_zero_fill:
  "(fitted m \<longrightarrow>
      predict_trip_budget m thread_order trip_features =
        Inr (predict_row (the (model m)) thread_order
               (map (\<lambda>(x, mu, s). (x - mu) / s)
                  (zip (map (\<lambda>f. case map_of trip_features f of None \<Rightarrow> 0 | Some v \<Rightarrow> v)
                          (feature_names m))
                       (zip (sc_mean (the (scaler m))) (sc_scale (the (scaler m))))))))
   \<and> (is_trained m \<and> f \<in> set (feature_names m) \<and> map_of (columns X) f = None \<longrightarrow>
        predict m thread_order X = Inl KeyError)"
  using predict_trip_budget_fitted [of m thread_order trip_features]
  by (auto simp: predict_def select_columns_missing)

theorem predict_trip_budget_zero_fill_witness:
  "predict_trip_budget example_budget_model [] [(''num_days'', 7)] = Inr 60
   \<and> predict example_budget_model [] days_only_frame = Inl KeyError"
proof -
  note h = predict_trip_budget_zero_fill
    [of example_budget_model "[]" "[(''num_days'', 7)]" "''num_people''" days_only_frame]
  have a: "fitted example_budget_model"
    by (simp add: fitted_def example_budget_model_def)
  have b: "is_trained example_budget_model \<and> ''num_people'' \<in> set (feature_names example_budget_model)
      \<and> map_of (columns days_only_frame) ''num_people'' = None"
    by (simp add: example_budget_model_def days_only_frame_def)
  from h a have "predict_trip_budget example_budget_model [] [(''num_days'', 7)] =
        Inr (predict_row (the (model example_budget_model)) []
               (map (\<lambda>(x, mu, s). (x - mu) / s)
                  (zip (map (\<lambda>f. case map_of [(''num_days'', 7)] f of None \<Rightarrow> 0 | Some v \<Rightarrow> v)
                          (feature_names example_budget_model))
                       (zip (sc_mean (the (scaler example_budget_model)))
                            (sc_scale (the (scaler example_budget_model)))))))"
    by blast
  then have c: "predict_trip_budget example_budget_model [] [(''num_days'', 7)] = Inr 60"
    by (simp add: example_budget_model_def)
  from h b have d: "predict example_budget_model [] days_only_frame = Inl KeyError"
    by blast
  from c d show ?thesis by blast
qed


section \<open>Properties of the ranking model\<close>










lemma set_column_index: "index (set_column df k c) = index df"
  by (simp add: set_column_def)

lemma set_column_lookup:
  "map_of (columns (set_column df k c)) key = (if key = k then Some c else map_of (columns df) key)"
  by (simp add: set_column_def update_conv')

lemma broadcast_index: "index (broadcast_user_features df uf) = index df"
  unfolding broadcast_user_features_def
  by (induction uf arbitrary: df) (auto simp: set_column_index)

lemma broadcast_lookup:
  "map_of (columns (broadcast_user_features df uf)) key =
     (case map_of (rev uf) key of
        Some v \<Rightarrow> Some (NumCol (replicate (length (index df)) v))
      | None \<Rightarrow> map_of (columns df) key)"
  unfolding broadcast_user_features_def
proof (induction uf arbitrary: df)
  case Nil
  then show ?case by simp
next
  case (Cons kv uf)
  obtain k v where kv: "kv = (k, v)" by (cases kv)
  show ?case
    unfolding kv fold_simps prod.case Cons.IH
    by (simp add: set_column_index set_column_lookup map_add_def split: option.splits)
qed

text \<open>
  Against claim C10 as stated: a trained model whose stored feature is not a column of the
  frame makes \<open>predict\<close> raise; \<open>rank_places\<close> falls back, and the caller's frame has the
  user-feature columns but no \<open>ml_score\<close> column.
\<close>

theorem rank_places_ml_score_counterexample:
  "is_trained distance_model
   \<and> map_of (columns (snd (MLRankingModel_rank_places distance_model [] sample_places sample_user 10)))
        ''budget_encoded'' = Some (NumCol [2, 2, 2])
   \<and> map_of (columns (snd (MLRankingModel_rank_places distance_model [] sample_places sample_user 10)))
        ''ml_score'' = None"
proof -
  have b: "broadcast_user_features sample_places sample_user =
      sample_places\<lparr>columns := columns sample_places
         @ [(''interest_culture'', NumCol [1, 1, 1]), (''budget_encoded'', NumCol [2, 2, 2])]\<rparr>"
    by (simp add: broadcast_user_features_def sample_places_def sample_user_def set_column_def
        numeral_3_eq_3)
  have p: "predict distance_model [] (broadcast_user_features sample_places sample_user) = Inl KeyError"
    unfolding b by (simp add: predict_def distance_model_def sample_places_def)
  have t: "is_trained distance_model" by (simp add: distance_model_def)
  have r: "snd (MLRankingModel_rank_places distance_model [] sample_places sample_user 10)
      = broadcast_user_features sample_places sample_user"
    using t by (simp add: MLRankingModel_rank_places_def Let_def p)
  have c: "map_of (columns (broadcast_user_features sample_places sample_user)) ''budget_encoded''
        = Some (NumCol [2, 2, 2])
      \<and> map_of (columns (broadcast_user_features sample_places sample_user)) ''ml_score'' = None"
    unfolding b by (simp add: sample_places_def)
  from t c show ?thesis unfolding r by blast
qed

text \<open>
  Claim C10, amended: with an untrained model \<open>rank_places\<close> leaves the caller's frame as it
  was. With a trained model it sets one constant column per user feature in the caller's
  frame (the other columns and the row labels unchanged), and adds the \<open>ml_score\<close> column
  of predictions exactly when \<open>predict\<close> succeeds; when \<open>predict\<close> raises, the frame keeps
  the user-feature columns only.
\<close>

theorem rank_places_frame_effect:
  "(\<not> is_trained m \<longrightarrow> snd (MLRankingModel_rank_places m thread_order df uf top_k) = df)
   \<and> (is_trained m \<longrightarrow>
        (case predict m thread_order (broadcast_user_features df uf) of
           Inr scores \<Rightarrow>
             snd (MLRankingModel_rank_places m thread_order df uf top_k) =
               set_column (broadcast_user_features df uf) ''ml_score'' (NumCol scores)
         | Inl e \<Rightarrow>
             snd (MLRankingModel_rank_places m thread_order df uf top_k) = broadcast_user_features df uf))
   \<and> index (broadcast_user_features df uf) = index df
   \<and> (\<forall>key. map_of (columns (broadcast_user_features df uf)) key =
          (case map_of (rev uf) key of
             Some v \<Rightarrow> Some (NumCol (replicate (length (index df)) v))
           | None \<Rightarrow> map_of (columns df) key))"
  by (simp add: MLRankingModel_rank_places_def broadcast_index broadcast_lookup Let_def
      split: sum.splits)

theorem rank_places_frame_effect_witness:
  "snd (MLRankingModel_rank_places new_model [] sample_places sample_user 10) = sample_places
   \<and> map_of (columns (snd (MLRankingModel_rank_places rating_model [] sample_places sample_user 10)))
        ''ml_score'' = Some (NumCol [6.5, 6, 7])
   \<and> map_of (columns (snd (MLRankingModel_rank_places rating_model [] sample_places sample_user 10)))
        ''interest_culture'' = Some (NumCol [1, 1, 1])"
proof -
  note h1 = rank_places_frame_effect [of new_model "[]" sample_places sample_user 10]
  note h2 = rank_places_frame_effect [of rating_model "[]" sample_places sample_user 10]
  have b: "broadcast_user_features sample_places sample_user =
      sample_places\<lparr>columns := columns sample_places
         @ [(''interest_culture'', NumCol [1, 1, 1]), (''budget_encoded'', NumCol [2, 2, 2])]\<rparr>"
    by (simp add: broadcast_user_features_def sample_places_def sample_user_def set_column_def
        numeral_3_eq_3)
  have p: "predict rating_model [] (broadcast_user_features sample_places sample_user)
      = Inr [6.5, 6, 7]"
    unfolding b
    by (simp add: predict_def rating_model_def sample_places_def rows_of_def
        scaler_transform_def regressor_predict_def upt_rec numeral_3_eq_3)
  from h1 have a: "snd (MLRankingModel_rank_places new_model [] sample_places sample_user 10) = sample_places"
    by (simp add: new_model_def)
  have t: "is_trained rating_model" by (simp add: rating_model_def)
  from h2 t have c: "snd (MLRankingModel_rank_places rating_model [] sample_places sample_user 10)
      = set_column (broadcast_user_features sample_places sample_user) ''ml_score'' (NumCol [6.5, 6, 7])"
    by (simp add: p)
  have d: "map_of (columns (set_column (broadcast_user_features sample_places sample_user)
                ''ml_score'' (NumCol [6.5, 6, 7]))) ''ml_score'' = Some (NumCol [6.5, 6, 7])
      \<and> map_of (columns (set_column (broadcast_user_features sample_places sample_user)
                ''ml_score'' (NumCol [6.5, 6, 7]))) ''interest_culture'' = Some (NumCol [1, 1, 1])"
    unfolding b by (simp add: set_column_lookup sample_places_def)
  from a d show ?thesis unfolding c by blast
qed

end
